theory Spec2Isabelle
  imports Complex_Main "HOL-Library.List_Lexorder" "HOL-Library.Char_ord"
begin

section \<open>JavaScript values used by the donor service\<close>

text \<open>
  A JavaScript string is a \<^typ>\<open>string\<close>. The built-in string methods are modelled on the
  ASCII range, where they agree with JavaScript; characters outside ASCII are left as they are.
  A property that may be \<^verbatim>\<open>undefined\<close> is an \<^typ>\<open>'a option\<close>.
\<close>

definition isWhiteSpace :: "char \<Rightarrow> bool" where
  "isWhiteSpace c \<longleftrightarrow>
     c = CHR '' '' \<or> c = CHR 0x09 \<or> c = CHR 0x0A \<or> c = CHR 0x0B \<or> c = CHR 0x0C \<or> c = CHR 0x0D"

text \<open>\<^verbatim>\<open>String.prototype.trim\<close>: white space is removed at both ends.\<close>

definition trim :: "string \<Rightarrow> string" where
  "trim s = rev (dropWhile isWhiteSpace (rev (dropWhile isWhiteSpace s)))"

definition upperChar :: "char \<Rightarrow> char" where
  "upperChar c =
     (case map_of (zip ''abcdefghijklmnopqrstuvwxyz'' ''ABCDEFGHIJKLMNOPQRSTUVWXYZ'') c of
        None \<Rightarrow> c | Some u \<Rightarrow> u)"

definition lowerChar :: "char \<Rightarrow> char" where
  "lowerChar c =
     (case map_of (zip ''ABCDEFGHIJKLMNOPQRSTUVWXYZ'' ''abcdefghijklmnopqrstuvwxyz'') c of
        None \<Rightarrow> c | Some l \<Rightarrow> l)"

definition toUpperCase :: "string \<Rightarrow> string" where
  "toUpperCase s = map upperChar s"

definition toLowerCase :: "string \<Rightarrow> string" where
  "toLowerCase s = map lowerChar s"

text \<open>
  \<^verbatim>\<open>parseInt(string)\<close> with no radix: leading white space is skipped, one sign is read, the
  prefix \<^verbatim>\<open>0x\<close> or \<^verbatim>\<open>0X\<close> selects radix 16 (radix 10 otherwise), and the longest prefix of
  digits of that radix is the value. \<^const>\<open>None\<close> is \<^verbatim>\<open>NaN\<close>: no digit was found. The
  value is the exact integer (JavaScript rounds magnitudes above \<open>2^53\<close> to a double).
\<close>

definition digitValue :: "char \<Rightarrow> nat option" where
  "digitValue c =
     map_of (zip ''0123456789abcdef'' [0 ..< 16] @ zip ''ABCDEF'' [10 ..< 16]) c"

definition isDigitOf :: "nat \<Rightarrow> char \<Rightarrow> bool" where
  "isDigitOf radix c = (case digitValue c of None \<Rightarrow> False | Some v \<Rightarrow> v < radix)"

definition digitsValue :: "nat \<Rightarrow> string \<Rightarrow> nat" where
  "digitsValue radix ds =
     foldl (\<lambda>acc c. acc * radix + (case digitValue c of None \<Rightarrow> 0 | Some v \<Rightarrow> v)) 0 ds"

definition parseInt :: "string \<Rightarrow> int option" where
  "parseInt str =
     (let s = dropWhile isWhiteSpace str;
          sign = (if take 1 s = ''-'' then - 1 else 1 :: int);
          s1 = (if take 1 s = ''-'' \<or> take 1 s = ''+'' then drop 1 s else s);
          hex = (take 2 s1 = ''0x'' \<or> take 2 s1 = ''0X'');
          radix = (if hex then 16 else 10);
          z = takeWhile (isDigitOf radix) (if hex then drop 2 s1 else s1)
      in if z = [] then None else Some (sign * int (digitsValue radix z)))"

text \<open>
  A \<^verbatim>\<open>Date\<close> object holds a time value in milliseconds, or \<^verbatim>\<open>NaN\<close> (an invalid date,
  \<^const>\<open>None\<close>). How \<^verbatim>\<open>new Date(string)\<close> reads a string depends on the engine for every
  format but ISO 8601, so the reading function is a parameter \<open>parseDate\<close> of the model.
\<close>

datatype js_date = Date (timeValue: "int option")

text \<open>
  An error object, with the three properties the service reads: \<^verbatim>\<open>name\<close>, \<^verbatim>\<open>code\<close> and
  \<^verbatim>\<open>message\<close>. \<open>error_code\<close> is the code when it is a number, and \<^const>\<open>None\<close> when the
  error has no code or one that is no number (the service compares it with 11000 only).
  \<^verbatim>\<open>new Error(m)\<close> has the name \<^verbatim>\<open>Error\<close> and no code.
\<close>

datatype js_error = JsError (error_name: string) (error_code: "int option") (error_message: string)

definition new_Error :: "string \<Rightarrow> js_error" where
  "new_Error m = JsError ''Error'' None m"

section \<open>The donor object and the CSV row\<close>

text \<open>
  The plain object handed to \<^verbatim>\<open>Donor.create\<close>. The seven properties that
  \<^verbatim>\<open>importDonorsFromCSV\<close> writes are always there; \<^verbatim>\<open>latitude\<close> and \<^verbatim>\<open>longitude\<close>,
  which only one of the two schemas of the repository knows, may be absent.
\<close>

record donorData =
  name :: string
  age :: int
  blood_group :: string
  contact_number :: string
  email :: string
  address :: string
  last_donation_date :: "js_date option"
  latitude :: "rat option"
  longitude :: "rat option"

text \<open>A row as the CSV parser emits it: an object from header names to cell texts.\<close>

type_synonym row = "string \<rightharpoonup> string"

text \<open>\<^verbatim>\<open>row.f?.trim() || ''\<close>, and the same with a case conversion after the trim.\<close>

definition trimmed :: "string option \<Rightarrow> string" where
  "trimmed v = (case v of None \<Rightarrow> [] | Some s \<Rightarrow> trim s)"

definition trimmedUpper :: "string option \<Rightarrow> string" where
  "trimmedUpper v = (case v of None \<Rightarrow> [] | Some s \<Rightarrow> toUpperCase (trim s))"

definition trimmedLower :: "string option \<Rightarrow> string" where
  "trimmedLower v = (case v of None \<Rightarrow> [] | Some s \<Rightarrow> toLowerCase (trim s))"

text \<open>
  \<^verbatim>\<open>parseInt(row.age) || 0\<close>: an absent cell is read as the text \<^verbatim>\<open>undefined\<close>, which has
  no digit; \<^verbatim>\<open>NaN\<close> and \<open>0\<close> are both falsy.
\<close>

definition parsedAge :: "string option \<Rightarrow> int" where
  "parsedAge v =
     (case v of None \<Rightarrow> 0 | Some s \<Rightarrow> (case parseInt s of None \<Rightarrow> 0 | Some n \<Rightarrow> n))"

text \<open>
  \<^verbatim>\<open>row.last_donation_date ? new Date(row.last_donation_date) : null\<close>: an absent cell and
  the empty text are falsy.
\<close>

definition parsedDate :: "(string \<Rightarrow> int option) \<Rightarrow> string option \<Rightarrow> js_date option" where
  "parsedDate parseDate v =
     (case v of None \<Rightarrow> None | Some s \<Rightarrow> if s = [] then None else Some (Date (parseDate s)))"

text \<open>The object literal of lines 27 to 37 of donorService.js.\<close>

definition toDonor :: "(string \<Rightarrow> int option) \<Rightarrow> row \<Rightarrow> donorData" where
  "toDonor parseDate r =
     \<lparr> name = trimmed (r ''name''),
       age = parsedAge (r ''age''),
       blood_group = trimmedUpper (r ''blood_group''),
       contact_number = trimmed (r ''contact_number''),
       email = trimmedLower (r ''email''),
       address = trimmed (r ''address''),
       last_donation_date = parsedDate parseDate (r ''last_donation_date''),
       latitude = None,
       longitude = None \<rparr>"

section \<open>The CSV import\<close>

text \<open>
  The three kinds of object that end up in the \<^verbatim>\<open>errors\<close> array of the report:
  \<^verbatim>\<open>{line, data: row, error}\<close> pushed by the row handler,
  \<^verbatim>\<open>{data: donorData, error: error.message}\<close> pushed to \<^verbatim>\<open>results.failed\<close> and
  \<^verbatim>\<open>{email, error}\<close> pushed to \<^verbatim>\<open>results.duplicates\<close>.
\<close>

datatype report_entry =
    ParseError nat row string
  | FailedInsert donorData string
  | DuplicateEntry string string

text \<open>
  The variables the handlers close over: \<^verbatim>\<open>donors\<close>, \<^verbatim>\<open>errors\<close> (here
  \<open>parse_errors\<close>) and \<^verbatim>\<open>lineNumber\<close>, which starts at 1.
\<close>

record import_state =
  donors :: "donorData list"
  parse_errors :: "report_entry list"
  lineNumber :: nat

definition initial_state :: import_state where
  "initial_state = \<lparr> donors = [], parse_errors = [], lineNumber = 1 \<rparr>"

text \<open>
  The \<^verbatim>\<open>'data'\<close> handler. Its \<^verbatim>\<open>catch\<close> branch has no counterpart: on a row of texts
  neither \<^verbatim>\<open>trim\<close>, \<^verbatim>\<open>parseInt\<close> nor \<^verbatim>\<open>new Date\<close> throws.
\<close>

definition on_data :: "(string \<Rightarrow> int option) \<Rightarrow> import_state \<Rightarrow> row \<Rightarrow> import_state" where
  "on_data parseDate st r =
     (let st1 = st\<lparr> lineNumber := lineNumber st + 1 \<rparr>;
          donor = toDonor parseDate r
      in if name donor = [] \<or> email donor = []
         then st1\<lparr> parse_errors := parse_errors st1 @
                [ParseError (lineNumber st1) r ''Missing required fields (name or email)''] \<rparr>
         else st1\<lparr> donors := donors st1 @ [donor] \<rparr>)"

text \<open>
  The store is a parameter of the import: \<open>create s d\<close> is one call of
  \<^verbatim>\<open>await Donor.create(d)\<close> on the store state \<open>s\<close>; it returns the created document
  or the error thrown, and the next store state.
\<close>

type_synonym ('s, 'doc) create_fn = "'s \<Rightarrow> donorData \<Rightarrow> (js_error + 'doc) \<times> 's"

record 'doc results =
  results_successful :: "'doc list"
  results_failed :: "report_entry list"
  results_duplicates :: "report_entry list"

text \<open>The \<^verbatim>\<open>for (const donorData of donors)\<close> loop of the \<^verbatim>\<open>'end'\<close> handler.\<close>

fun insertDonors ::
  "('s, 'doc) create_fn \<Rightarrow> donorData list \<Rightarrow> 's \<Rightarrow> 'doc results \<Rightarrow> 'doc results \<times> 's" where
  "insertDonors create [] s res = (res, s)"
| "insertDonors create (donorData # rest) s res =
     (case create s donorData of
        (Inr donor, s') \<Rightarrow>
          insertDonors create rest s'
            (res\<lparr> results_successful := results_successful res @ [donor] \<rparr>)
      | (Inl err, s') \<Rightarrow>
          if error_code err = Some 11000
          then insertDonors create rest s'
                 (res\<lparr> results_duplicates := results_duplicates res @
                    [DuplicateEntry (email donorData) ''Email already exists''] \<rparr>)
          else insertDonors create rest s'
                 (res\<lparr> results_failed := results_failed res @
                    [FailedInsert donorData (error_message err)] \<rparr>))"

record report =
  total :: nat
  successful :: nat
  duplicates :: nat
  failed :: nat
  errors :: "report_entry list"

text \<open>
  How the promise returned by \<^verbatim>\<open>importDonorsFromCSV\<close> ends. \<open>Uncaught e\<close>: the error
  \<open>e\<close> was emitted on a stream on which this function registers no \<^verbatim>\<open>'error'\<close> listener;
  Node throws it as an uncaught exception, and neither \<^verbatim>\<open>resolve\<close> nor \<^verbatim>\<open>reject\<close> is
  ever called.
\<close>

datatype 'a promise = Resolved 'a | Rejected js_error | Uncaught js_error

text \<open>
  The \<^verbatim>\<open>'end'\<close> handler. Its outer \<^verbatim>\<open>catch\<close>, which would reject the promise, has no
  counterpart: the loop catches every error of \<^verbatim>\<open>Donor.create\<close>, and nothing else in the
  \<^verbatim>\<open>try\<close> block throws.
\<close>

definition on_end ::
  "('s, 'doc) create_fn \<Rightarrow> import_state \<Rightarrow> 's \<Rightarrow> report promise \<times> 's" where
  "on_end create st s =
     (if length (donors st) = 0
      then (Rejected (new_Error ''No valid donor records found in CSV''), s)
      else (case insertDonors create (donors st) s
                   \<lparr> results_successful = [], results_failed = [], results_duplicates = [] \<rparr> of
              (res, s') \<Rightarrow>
                (Resolved \<lparr> total = length (donors st),
                            successful = length (results_successful res),
                            duplicates = length (results_duplicates res),
                            failed = length (results_failed res),
                            errors = parse_errors st @ results_failed res @
                                     results_duplicates res \<rparr>, s')))"

text \<open>
  What reading a file yields: the rows the parser emits, and how the reading ends.
  The chain is \<^verbatim>\<open>fs.createReadStream(filePath).pipe(csv()).on('data', ..).on('end', ..).on('error', ..)\<close>:
  \<^verbatim>\<open>pipe\<close> returns its destination, so all three listeners are registered on the parser.
  \<^item> \<open>End\<close>: the file was read to its end; the parser emits \<^verbatim>\<open>'end'\<close>.
  \<^item> \<open>ParserError e\<close>: the parser emits \<^verbatim>\<open>'error'\<close>; the registered listener runs.
  \<^item> \<open>SourceError e\<close>: the file stream emits \<^verbatim>\<open>'error'\<close> (a failed read). \<^verbatim>\<open>pipe\<close> does
    not forward it to the parser, the parser is never ended, and the file stream has no
    \<^verbatim>\<open>'error'\<close> listener.
\<close>

datatype stream_end = End | ParserError js_error | SourceError js_error

record csv_stream =
  rows :: "row list"
  ending :: stream_end

text \<open>
  \<open>files\<close> is the file system: \<open>files p = None\<close> when \<^verbatim>\<open>fs.existsSync(p)\<close> is false.
\<close>

definition importDonorsFromCSV ::
  "(string \<Rightarrow> int option) \<Rightarrow> ('s, 'doc) create_fn \<Rightarrow> (string \<rightharpoonup> csv_stream) \<Rightarrow> 's \<Rightarrow> string
     \<Rightarrow> report promise \<times> 's" where
  "importDonorsFromCSV parseDate create files s filePath =
     (case files filePath of
        None \<Rightarrow> (Rejected (new_Error (''CSV file not found at path: '' @ filePath)), s)
      | Some f \<Rightarrow>
          (let st = foldl (on_data parseDate) initial_state (rows f)
           in case ending f of
                End \<Rightarrow> on_end create st s
              | ParserError e \<Rightarrow>
                  (Rejected (new_Error (''CSV reading error: '' @ error_message e)), s)
              | SourceError e \<Rightarrow> (Uncaught e, s)))"

text \<open>
  A store that also records every donor object it is asked to create, in call order: the
  wrapper around any \<open>create\<close> with which the calls of the import are observed.
\<close>

definition logged :: "('s, 'doc) create_fn \<Rightarrow> ('s \<times> donorData list, 'doc) create_fn" where
  "logged create = (\<lambda>(s, calls) d. case create s d of (r, s') \<Rightarrow> (r, (s', calls @ [d])))"

text \<open>
  One \<open>create\<close> call per candidate, in order, each on the store the call before left:
  the candidates paired with what their call returned, and the last store.
\<close>

fun create_each ::
  "('s, 'doc) create_fn \<Rightarrow> donorData list \<Rightarrow> 's \<Rightarrow> (donorData \<times> (js_error + 'doc)) list \<times> 's" where
  "create_each create [] s = ([], s)"
| "create_each create (d # ds) s =
     (case create s d of (r, s') \<Rightarrow>
        (case create_each create ds s' of (outcomes, s'') \<Rightarrow> ((d, r) # outcomes, s'')))"

text \<open>The three classes of outcome, and the entry recorded for the last two.\<close>

definition isSuccess :: "donorData \<times> (js_error + 'doc) \<Rightarrow> bool" where
  "isSuccess x = (case snd x of Inr _ \<Rightarrow> True | Inl _ \<Rightarrow> False)"

definition isDuplicate :: "donorData \<times> (js_error + 'doc) \<Rightarrow> bool" where
  "isDuplicate x = (case snd x of Inr _ \<Rightarrow> False | Inl e \<Rightarrow> error_code e = Some 11000)"

definition isFailure :: "donorData \<times> (js_error + 'doc) \<Rightarrow> bool" where
  "isFailure x = (case snd x of Inr _ \<Rightarrow> False | Inl e \<Rightarrow> error_code e \<noteq> Some 11000)"

definition duplicateEntry :: "donorData \<times> (js_error + 'doc) \<Rightarrow> report_entry" where
  "duplicateEntry x = DuplicateEntry (email (fst x)) ''Email already exists''"

definition failedEntry :: "donorData \<times> (js_error + 'doc) \<Rightarrow> report_entry" where
  "failedEntry x =
     FailedInsert (fst x) (case snd x of Inl e \<Rightarrow> error_message e | Inr _ \<Rightarrow> [])"

text \<open>A candidate is a transformed row with a name and an email.\<close>

definition isCandidate :: "donorData \<Rightarrow> bool" where
  "isCandidate d \<longleftrightarrow> name d \<noteq> [] \<and> email d \<noteq> []"

definition candidates :: "(string \<Rightarrow> int option) \<Rightarrow> row list \<Rightarrow> donorData list" where
  "candidates parseDate rs = filter isCandidate (map (toDonor parseDate) rs)"

section \<open>The store behind the Donor model\<close>

text \<open>
  \<^verbatim>\<open>Donor\<close> is the Mongoose model of \<^verbatim>\<open>donorSchema\<close>. Mongoose and the database are
  libraries; they are modelled as far as the schema and the calls of the service need:
  validation, the unique index, identifiers, the queries and the aggregation the service
  issues. The repository declares the schema
  twice: models/donorModel.js, with the required paths \<^verbatim>\<open>latitude\<close> and \<^verbatim>\<open>longitude\<close>, and
  a second file without these two paths. Neither declaration passes the
  \<^verbatim>\<open>timestamps\<close> option, so a document has the declared paths and \<^verbatim>\<open>_id\<close>, and no
  \<^verbatim>\<open>createdAt\<close>.
\<close>

datatype schema = WithGeo | WithoutGeo

record donor_doc = donorData +
  doc_id :: nat

text \<open>The collection in storage order, and the next identifier the driver hands out.\<close>

record store =
  docs :: "donor_doc list"
  next_id :: nat

text \<open>
  Validation against the schema, as the failing paths: every path is \<^verbatim>\<open>required\<close>, which
  an empty string fails; \<^verbatim>\<open>name\<close> is trimmed first (\<^verbatim>\<open>trim: true\<close>); an invalid date
  cannot be cast. \<^verbatim>\<open>age\<close> is a number in every \<^typ>\<open>donorData\<close>.
\<close>

definition invalidPaths :: "schema \<Rightarrow> donorData \<Rightarrow> string list" where
  "invalidPaths sch d =
     (if trim (name d) = [] then [''name''] else []) @
     (if blood_group d = [] then [''blood_group''] else []) @
     (if contact_number d = [] then [''contact_number''] else []) @
     (if email d = [] then [''email''] else []) @
     (if address d = [] then [''address''] else []) @
     (if last_donation_date d = Some (Date None) then [''last_donation_date''] else []) @
     (if sch = WithGeo \<and> latitude d = None then [''latitude''] else []) @
     (if sch = WithGeo \<and> longitude d = None then [''longitude''] else [])"

text \<open>
  The two errors of \<^verbatim>\<open>Donor.create\<close>. Only the name and the code are read by the service;
  the messages stand for the longer ones of the library.
\<close>

definition validationError :: "string list \<Rightarrow> js_error" where
  "validationError paths =
     JsError ''ValidationError'' None (''Donor validation failed: '' @ concat (map (\<lambda>p. p @ '' '') paths))"

definition duplicateKeyError :: "string \<Rightarrow> js_error" where
  "duplicateKeyError e =
     JsError ''MongoServerError'' (Some 11000) (''E11000 duplicate key error index: email_1 dup key: '' @ e)"

text \<open>
  \<^verbatim>\<open>Donor.create\<close>: the document is validated, then inserted; the unique index on
  \<^verbatim>\<open>email\<close> (\<^verbatim>\<open>unique: true\<close>, no collation: texts are compared as they are) refuses an
  email that a stored document has. The schema sets no \<^verbatim>\<open>lowercase\<close> on \<^verbatim>\<open>email\<close> and no
  \<^verbatim>\<open>uppercase\<close> on \<^verbatim>\<open>blood_group\<close>. Paths the schema does not declare are dropped.
\<close>

definition Donor_create :: "schema \<Rightarrow> (store, donor_doc) create_fn" where
  "Donor_create sch s d =
     (if invalidPaths sch d \<noteq> [] then (Inl (validationError (invalidPaths sch d)), s)
      else if email d \<in> set (map email (docs s)) then (Inl (duplicateKeyError (email d)), s)
      else (let doc = \<lparr> name = trim (name d), age = age d, blood_group = blood_group d,
                        contact_number = contact_number d, email = email d,
                        address = address d, last_donation_date = last_donation_date d,
                        latitude = (if sch = WithGeo then latitude d else None),
                        longitude = (if sch = WithGeo then longitude d else None),
                        doc_id = next_id s \<rparr>
            in (Inr doc, s\<lparr> docs := docs s @ [doc], next_id := next_id s + 1 \<rparr>)))"

text \<open>The values a query compares, and the value a document has at a path, if any.\<close>

datatype bson = BNull | BNumber rat | BString string | BDate int | BObjectId nat

definition dateValue :: "js_date option \<Rightarrow> bson" where
  "dateValue v = (case v of Some (Date (Some t)) \<Rightarrow> BDate t | _ \<Rightarrow> BNull)"

definition getPath :: "donor_doc \<Rightarrow> string \<Rightarrow> bson option" where
  "getPath d p =
     map_of ([(''_id'', BObjectId (doc_id d)),
              (''name'', BString (name d)),
              (''age'', BNumber (of_int (age d))),
              (''blood_group'', BString (blood_group d)),
              (''contact_number'', BString (contact_number d)),
              (''email'', BString (email d)),
              (''address'', BString (address d)),
              (''last_donation_date'', dateValue (last_donation_date d))] @
             (case latitude d of None \<Rightarrow> [] | Some x \<Rightarrow> [(''latitude'', BNumber x)]) @
             (case longitude d of None \<Rightarrow> [] | Some x \<Rightarrow> [(''longitude'', BNumber x)])) p"

text \<open>
  The query objects the service builds: a conjunction of clauses, each a condition on a path
  or an \<^verbatim>\<open>$or\<close> of such conditions. A condition is a value (equality; \<^verbatim>\<open>null\<close> also matches
  a missing path) or \<^verbatim>\<open>{$lte: v}\<close>, which matches values of the type of \<open>v\<close> only.
\<close>

datatype cond = Equals bson | Lte bson

fun matchesCond :: "bson option \<Rightarrow> cond \<Rightarrow> bool" where
  "matchesCond v (Equals BNull) = (v = None \<or> v = Some BNull)"
| "matchesCond v (Equals x) = (v = Some x)"
| "matchesCond v (Lte (BDate t)) = (case v of Some (BDate u) \<Rightarrow> u \<le> t | _ \<Rightarrow> False)"
| "matchesCond v (Lte (BNumber t)) = (case v of Some (BNumber u) \<Rightarrow> u \<le> t | _ \<Rightarrow> False)"
| "matchesCond v (Lte (BString t)) = (case v of Some (BString u) \<Rightarrow> u \<le> t | _ \<Rightarrow> False)"
| "matchesCond v (Lte (BObjectId t)) = (case v of Some (BObjectId u) \<Rightarrow> u \<le> t | _ \<Rightarrow> False)"
| "matchesCond v (Lte BNull) = (v = None \<or> v = Some BNull)"

datatype clause = Path string cond | Or "(string \<times> cond) list"

type_synonym query = "clause list"

fun matchesClause :: "donor_doc \<Rightarrow> clause \<Rightarrow> bool" where
  "matchesClause d (Path p c) = matchesCond (getPath d p) c"
| "matchesClause d (Or alts) = list_ex (\<lambda>(p, c). matchesCond (getPath d p) c) alts"

definition matches :: "donor_doc \<Rightarrow> query \<Rightarrow> bool" where
  "matches d q = list_all (matchesClause d) q"

definition Donor_find :: "store \<Rightarrow> query \<Rightarrow> js_error + donor_doc list" where
  "Donor_find s q = Inr (filter (\<lambda>d. matches d q) (docs s))"

text \<open>
  \<^verbatim>\<open>.sort({p: -1})\<close> on a date path: descending, a document without the path last. Among
  documents with equal keys the database promises no order; the model keeps them in
  storage order.
\<close>

fun insertDesc :: "('a \<Rightarrow> int option) \<Rightarrow> 'a \<Rightarrow> 'a list \<Rightarrow> 'a list" where
  "insertDesc key x [] = [x]"
| "insertDesc key x (y # ys) =
     (if (case key x of None \<Rightarrow> key y = None
          | Some a \<Rightarrow> (case key y of None \<Rightarrow> True | Some b \<Rightarrow> b \<le> a))
      then x # y # ys else y # insertDesc key x ys)"

definition dateKey :: "string \<Rightarrow> donor_doc \<Rightarrow> int option" where
  "dateKey p d = (case getPath d p of Some (BDate t) \<Rightarrow> Some t | _ \<Rightarrow> None)"

definition sortDesc :: "string \<Rightarrow> donor_doc list \<Rightarrow> donor_doc list" where
  "sortDesc p ds = foldr (insertDesc (dateKey p)) ds []"

text \<open>
  \<^verbatim>\<open>findById\<close> and \<^verbatim>\<open>findByIdAndDelete\<close>. \<open>castId\<close> reads an identifier as an ObjectId
  and is \<^const>\<open>None\<close> on a text that is not one: the query then throws a \<^verbatim>\<open>CastError\<close>.
\<close>

definition castError :: "string \<Rightarrow> js_error" where
  "castError v = JsError ''CastError'' None (''Cast to ObjectId failed for value '' @ v)"

definition Donor_findById ::
  "(string \<Rightarrow> nat option) \<Rightarrow> store \<Rightarrow> string \<Rightarrow> js_error + donor_doc option" where
  "Donor_findById castId s i =
     (case castId i of
        None \<Rightarrow> Inl (castError i)
      | Some k \<Rightarrow> Inr (find (\<lambda>d. doc_id d = k) (docs s)))"

definition Donor_findByIdAndDelete ::
  "(string \<Rightarrow> nat option) \<Rightarrow> store \<Rightarrow> string \<Rightarrow> (js_error + donor_doc option) \<times> store" where
  "Donor_findByIdAndDelete castId s i =
     (case castId i of
        None \<Rightarrow> (Inl (castError i), s)
      | Some k \<Rightarrow>
          (case find (\<lambda>d. doc_id d = k) (docs s) of
             None \<Rightarrow> (Inr None, s)
           | Some d \<Rightarrow> (Inr (Some d), s\<lparr> docs := remove1 d (docs s) \<rparr>)))"

text \<open>The usual text of an ObjectId: 24 hexadecimal digits.\<close>

definition castObjectId :: "string \<Rightarrow> nat option" where
  "castObjectId i =
     (if length i = 24 \<and> list_all (isDigitOf 16) i then Some (digitsValue 16 i) else None)"






section \<open>The service operations\<close>

text \<open>
  \<^verbatim>\<open>getAllDonors(filters)\<close>. \<open>filters\<close> is the object of query parameters, from names to
  texts; \<open>now\<close> is the time value of \<^verbatim>\<open>new Date()\<close>. \<^verbatim>\<open>setDate(getDate() - 90)\<close> moves the
  date back by 90 days of 86400000 ms (local clock changes in between left aside).
  \<^verbatim>\<open>select('-__v')\<close> removes a property the model does not carry.
\<close>

definition ninetyDaysAgo :: "int \<Rightarrow> int" where
  "ninetyDaysAgo now = now - 90 * 86400000"

definition getAllDonors :: "int \<Rightarrow> store \<Rightarrow> (string \<rightharpoonup> string) \<Rightarrow> js_error + donor_doc list" where
  "getAllDonors now s filters =
     (let q1 = (case filters ''blood_group'' of
                  None \<Rightarrow> []
                | Some b \<Rightarrow> if b = [] then []
                            else [Path ''blood_group'' (Equals (BString (toUpperCase b)))]);
          q2 = (if filters ''isEligible'' = Some ''true''
                then [Or [(''last_donation_date'', Equals BNull),
                          (''last_donation_date'', Lte (BDate (ninetyDaysAgo now)))]]
                else [])
      in case Donor_find s (q1 @ q2) of
           Inr found \<Rightarrow> Inr (sortDesc ''createdAt'' found)
         | Inl e \<Rightarrow> Inl (new_Error (''Error fetching donors: '' @ error_message e)))"

text \<open>
  \<^verbatim>\<open>getDonorById\<close>: the \<^verbatim>\<open>throw\<close> of the \<^verbatim>\<open>try\<close> block is caught by its own
  \<^verbatim>\<open>catch\<close>, which rethrows every error but a \<^verbatim>\<open>CastError\<close>.
\<close>

definition rethrowCast :: "js_error \<Rightarrow> js_error" where
  "rethrowCast e =
     (if error_name e = ''CastError'' then new_Error ''Invalid donor ID format'' else e)"

definition getDonorById ::
  "(string \<Rightarrow> nat option) \<Rightarrow> store \<Rightarrow> string \<Rightarrow> js_error + donor_doc" where
  "getDonorById castId s donorId =
     (case Donor_findById castId s donorId of
        Inr (Some donor) \<Rightarrow> Inr donor
      | Inr None \<Rightarrow> Inl (rethrowCast (new_Error ''Donor not found''))
      | Inl e \<Rightarrow> Inl (rethrowCast e))"

definition deleteDonor ::
  "(string \<Rightarrow> nat option) \<Rightarrow> store \<Rightarrow> string \<Rightarrow> (js_error + donor_doc) \<times> store" where
  "deleteDonor castId s donorId =
     (case Donor_findByIdAndDelete castId s donorId of
        (Inr (Some donor), s') \<Rightarrow> (Inr donor, s')
      | (Inr None, s') \<Rightarrow> (Inl (rethrowCast (new_Error ''Donor not found'')), s')
      | (Inl e, s') \<Rightarrow> (Inl (rethrowCast e), s'))"




section \<open>Reference data for the properties\<close>

text \<open>
  The parse errors of a sequence of rows, the first of which is read when the line counter
  is \<open>n\<close>: one entry for every row that is no candidate, with the line number of the row.
\<close>

fun parseErrorsFrom :: "(string \<Rightarrow> int option) \<Rightarrow> nat \<Rightarrow> row list \<Rightarrow> report_entry list" where
  "parseErrorsFrom P n [] = []"
| "parseErrorsFrom P n (r # rs) =
     (if isCandidate (toDonor P r) then []
      else [ParseError (n + 1) r ''Missing required fields (name or email)'']) @
     parseErrorsFrom P (n + 1) rs"

definition emptyStore :: store where
  "emptyStore = \<lparr> docs = [], next_id = 0 \<rparr>"

text \<open>
  A file of four rows: a complete one, one without an email, one whose email is the first
  one's in another case and with spaces around it, and one with a name and an email only.
\<close>

definition exampleRows :: "row list" where
  "exampleRows =
     [ [''name'' \<mapsto> ''Ann'', ''age'' \<mapsto> ''31'', ''blood_group'' \<mapsto> ''a+'',
        ''contact_number'' \<mapsto> ''0771'', ''email'' \<mapsto> ''Ann@x.org'', ''address'' \<mapsto> ''Kandy''],
       [''name'' \<mapsto> ''Bob'', ''age'' \<mapsto> ''40''],
       [''name'' \<mapsto> ''Ann B'', ''age'' \<mapsto> ''abc'', ''blood_group'' \<mapsto> ''o-'',
        ''contact_number'' \<mapsto> ''0772'', ''email'' \<mapsto> '' ann@X.org '', ''address'' \<mapsto> ''Galle''],
       [''name'' \<mapsto> ''Cy'', ''email'' \<mapsto> ''cy@x.org''] ]"

definition exampleFiles :: "string \<rightharpoonup> csv_stream" where
  "exampleFiles = [''donors.csv'' \<mapsto> \<lparr> rows = exampleRows, ending = End \<rparr>]"

text \<open>Three rows, none with both a name and an email.\<close>

definition invalidRows :: "row list" where
  "invalidRows =
     [ [''name'' \<mapsto> ''Bob'', ''age'' \<mapsto> ''40''],
       [''email'' \<mapsto> ''x@y.org''],
       [''name'' \<mapsto> ''  '', ''email'' \<mapsto> ''z@y.org''] ]"

text \<open>
  A store is well formed when no stored date is invalid: validation refuses an invalid date,
  so every store that \<^const>\<open>Donor_create\<close> builds is (lemmas \<open>wellFormed_empty\<close>,
  \<open>wellFormed_create\<close> and \<open>wellFormed_delete\<close>).
\<close>

definition wellFormed :: "store \<Rightarrow> bool" where
  "wellFormed s \<longleftrightarrow> list_all (\<lambda>d. last_donation_date d \<noteq> Some (Date None)) (docs s)"



text \<open>Donor objects that pass both schemas, and the document stored for one under an identifier.\<close>

definition exampleDonor ::
  "string \<Rightarrow> string \<Rightarrow> string \<Rightarrow> int \<Rightarrow> js_date option \<Rightarrow> donorData" where
  "exampleDonor n e g a l =
     \<lparr> name = n, age = a, blood_group = g, contact_number = ''0771'', email = e,
       address = ''Kandy'', last_donation_date = l, latitude = Some 7, longitude = Some 80 \<rparr>"

definition stored :: "nat \<Rightarrow> donorData \<Rightarrow> donor_doc" where
  "stored k d =
     \<lparr> name = name d, age = age d, blood_group = blood_group d,
       contact_number = contact_number d, email = email d, address = address d,
       last_donation_date = last_donation_date d, latitude = latitude d,
       longitude = longitude d, doc_id = k \<rparr>"

definition ann :: donorData where
  "ann = exampleDonor ''Ann'' ''Ann@x.org'' ''A+'' 30 None"

definition ben :: donorData where
  "ben = exampleDonor ''Ben'' ''ben@x.org'' ''O-'' 41 (Some (Date (Some 0)))"

text \<open>The records of the statistics example: two of group A+, aged 30 and 40, one of B-, aged 50.\<close>

definition statsStore :: store where
  "statsStore =
     \<lparr> docs = [stored 0 (exampleDonor ''Bea'' ''bea@x.org'' ''B-'' 50 None),
               stored 1 (exampleDonor ''Ann'' ''ann@x.org'' ''A+'' 30 None),
               stored 2 (exampleDonor ''Al'' ''al@x.org'' ''A+'' 40 None)],
       next_id = 3 \<rparr>"


section \<open>Properties of the CSV import\<close>

subsection \<open>The row handler and the insertion loop\<close>

lemma on_data_donors:
  "donors (on_data P st r) = donors st @ filter isCandidate [toDonor P r]"
  by (simp add: on_data_def isCandidate_def Let_def)

lemma on_data_lineNumber: "lineNumber (on_data P st r) = lineNumber st + 1"
  by (simp add: on_data_def Let_def)

lemma on_data_parse_errors:
  "parse_errors (on_data P st r) = parse_errors st @ parseErrorsFrom P (lineNumber st) [r]"
  by (simp add: on_data_def isCandidate_def Let_def)

lemma consume_donors:
  "donors (foldl (on_data P) st rs) = donors st @ candidates P rs"
  by (induction rs arbitrary: st) (simp_all add: candidates_def on_data_donors)

lemma consume_parse_errors:
  "parse_errors (foldl (on_data P) st rs) = parse_errors st @ parseErrorsFrom P (lineNumber st) rs"
  by (induction rs arbitrary: st) (simp_all add: on_data_parse_errors on_data_lineNumber)

lemma parseErrorsFrom_nth:
  "i < length rs \<Longrightarrow> \<not> isCandidate (toDonor P (rs ! i)) \<Longrightarrow>
   ParseError (n + 1 + i) (rs ! i) ''Missing required fields (name or email)''
     \<in> set (parseErrorsFrom P n rs)"
proof (induction rs arbitrary: n i)
  case Nil
  then show ?case by simp
next
  case (Cons r rs)
  show ?case
  proof (cases i)
    case 0
    with Cons.prems show ?thesis by simp
  next
    case (Suc j)
    with Cons.prems have "j < length rs" and "\<not> isCandidate (toDonor P (rs ! j))"
      by simp_all
    from Cons.IH [OF this, of "n + 1"] Suc show ?thesis by simp
  qed
qed

lemma candidates_are_candidates: "d \<in> set (candidates P rs) \<Longrightarrow> isCandidate d"
  by (simp add: candidates_def)

lemma create_each_step:
  "create_each create (d # ds) s =
     ((d, fst (create s d)) # fst (create_each create ds (snd (create s d))),
      snd (create_each create ds (snd (create s d))))"
  by (simp split: prod.splits)

lemma create_each_fst: "map fst (fst (create_each create ds s)) = ds"
  by (induction ds arbitrary: s) (simp_all add: create_each_step del: create_each.simps(2))

lemma outcome_classes:
  "(isSuccess x \<and> \<not> isDuplicate x \<and> \<not> isFailure x) \<or>
   (\<not> isSuccess x \<and> isDuplicate x \<and> \<not> isFailure x) \<or>
   (\<not> isSuccess x \<and> \<not> isDuplicate x \<and> isFailure x)"
  by (cases x) (auto simp: isSuccess_def isDuplicate_def isFailure_def split: sum.splits)

lemma outcome_counts:
  "length (filter isSuccess tr) + length (filter isDuplicate tr) + length (filter isFailure tr)
     = length tr"
proof (induction tr)
  case Nil
  show ?case by simp
next
  case (Cons x tr)
  with outcome_classes [of x] show ?case by auto
qed

lemma insertDonors_store:
  "snd (insertDonors create ds s res) = snd (create_each create ds s)"
  by (induction ds arbitrary: s res) (auto split: prod.splits sum.splits)

lemma insertDonors_successful:
  "length (results_successful (fst (insertDonors create ds s res))) =
     length (results_successful res) + length (filter isSuccess (fst (create_each create ds s)))"
  by (induction ds arbitrary: s res)
     (auto simp: isSuccess_def split: prod.splits sum.splits)

lemma insertDonors_failed:
  "results_failed (fst (insertDonors create ds s res)) =
     results_failed res @ map failedEntry (filter isFailure (fst (create_each create ds s)))"
  by (induction ds arbitrary: s res)
     (auto simp: isFailure_def failedEntry_def split: prod.splits sum.splits)

lemma insertDonors_duplicates:
  "results_duplicates (fst (insertDonors create ds s res)) =
     results_duplicates res @
       map duplicateEntry (filter isDuplicate (fst (create_each create ds s)))"
  by (induction ds arbitrary: s res)
     (auto simp: isDuplicate_def duplicateEntry_def split: prod.splits sum.splits)

lemma create_each_logged:
  "create_each (logged create) ds (s, calls) =
     (fst (create_each create ds s), (snd (create_each create ds s), calls @ ds))"
  by (induction ds arbitrary: s calls) (auto simp: logged_def split: prod.splits)

lemma on_end_calls:
  "snd (snd (on_end (logged create) st (s, calls))) = calls @ donors st"
proof (cases "donors st = []")
  case True
  then show ?thesis by (simp add: on_end_def)
next
  case False
  have "snd (insertDonors (logged create) (donors st) (s, calls) res) =
          (snd (create_each create (donors st) s), calls @ donors st)" for res
    by (simp add: insertDonors_store create_each_logged)
  with False show ?thesis
    by (simp add: on_end_def split: prod.splits) (metis snd_conv)
qed

lemma import_calls:
  "snd (snd (importDonorsFromCSV P (logged create) files (s, calls) filePath)) =
     calls @ (case files filePath of None \<Rightarrow> []
              | Some f \<Rightarrow> if ending f = End then candidates P (rows f) else [])"
  by (simp add: importDonorsFromCSV_def on_end_calls consume_donors initial_state_def Let_def
           split: option.splits stream_end.splits)

lemma import_parser_error:
  "importDonorsFromCSV P create (files(filePath \<mapsto> \<lparr> rows = rs, ending = ParserError e \<rparr>)) s
      filePath = (Rejected (new_Error (''CSV reading error: '' @ error_message e)), s)"
  by (simp add: importDonorsFromCSV_def)

lemma import_creates_only_after_end:
  "files filePath = Some f \<Longrightarrow> ending f \<noteq> End \<Longrightarrow>
   snd (importDonorsFromCSV P (logged create) files (s, []) filePath) = (s, [])"
  by (simp add: importDonorsFromCSV_def split: stream_end.splits)

subsection \<open>The string methods\<close>







subsection \<open>The claims on the import\<close>

text \<open>
  Claim C1. When the file exists, its stream ends and at least one row is a candidate, the
  import calls \<open>create\<close> once for each candidate, in row order, each call on the store the
  one before left (the calls a recording store sees are the candidates, and the final store
  is the one these calls leave). Every outcome falls in exactly one of three classes:
  success, an error with code 11000 (duplicate), any other error (failed). The promise is
  resolved with the report: \<open>total\<close> is the number of candidates, the three counts are the
  sizes of the classes and add up to \<open>total\<close>, and \<open>errors\<close> lists the parse errors, then
  an entry with the donor object and the message for each failed call, then an entry with
  the email and the fixed message for each duplicate.
\<close>

theorem import_persists_and_reports:
  assumes "files filePath = Some f" and "ending f = End" and "candidates P (rows f) \<noteq> []"
  shows "let cs = candidates P (rows f); outcomes = fst (create_each create cs s) in
         map fst outcomes = cs \<and>
         snd (snd (importDonorsFromCSV P (logged create) files (s, []) filePath)) = cs \<and>
         (\<exists>rep. importDonorsFromCSV P create files s filePath =
                  (Resolved rep, snd (create_each create cs s)) \<and>
                total rep = length cs \<and>
                successful rep = length (filter isSuccess outcomes) \<and>
                duplicates rep = length (filter isDuplicate outcomes) \<and>
                failed rep = length (filter isFailure outcomes) \<and>
                successful rep + duplicates rep + failed rep = total rep \<and>
                errors rep = parseErrorsFrom P 1 (rows f) @
                             map failedEntry (filter isFailure outcomes) @
                             map duplicateEntry (filter isDuplicate outcomes))"
proof -
  define cs where "cs = candidates P (rows f)"
  define outcomes where "outcomes = fst (create_each create cs s)"
  define st where "st = foldl (on_data P) initial_state (rows f)"
  define res where "res = fst (insertDonors create cs s
     \<lparr> results_successful = [], results_failed = [], results_duplicates = [] \<rparr>)"
  define rep where "rep = \<lparr> total = length cs,
       successful = length (results_successful res),
       duplicates = length (results_duplicates res),
       failed = length (results_failed res),
       errors = parse_errors st @ results_failed res @ results_duplicates res \<rparr>"
  have donors_st: "donors st = cs"
    by (simp add: st_def cs_def consume_donors initial_state_def)
  have errs_st: "parse_errors st = parseErrorsFrom P 1 (rows f)"
    by (simp add: st_def consume_parse_errors initial_state_def)
  have nonempty: "cs \<noteq> []"
    using assms(3) by (simp add: cs_def)
  have run: "importDonorsFromCSV P create files s filePath =
               (Resolved rep, snd (create_each create cs s))"
    using assms(1,2) nonempty donors_st
    by (simp add: importDonorsFromCSV_def on_end_def st_def [symmetric] rep_def res_def
          insertDonors_store case_prod_beta)
  have n_ok: "successful rep = length (filter isSuccess outcomes)"
    by (simp add: rep_def res_def outcomes_def insertDonors_successful)
  have n_dup: "duplicates rep = length (filter isDuplicate outcomes)"
    by (simp add: rep_def res_def outcomes_def insertDonors_duplicates)
  have n_bad: "failed rep = length (filter isFailure outcomes)"
    by (simp add: rep_def res_def outcomes_def insertDonors_failed)
  have len: "length outcomes = length cs"
    using create_each_fst [of create cs s] by (metis length_map outcomes_def)
  have n_all: "successful rep + duplicates rep + failed rep = total rep"
    using outcome_counts [of outcomes] n_ok n_dup n_bad len by (simp add: rep_def)
  have errs: "errors rep = parseErrorsFrom P 1 (rows f) @
                map failedEntry (filter isFailure outcomes) @
                map duplicateEntry (filter isDuplicate outcomes)"
    by (simp add: rep_def errs_st res_def outcomes_def insertDonors_failed
          insertDonors_duplicates)
  have calls: "snd (snd (importDonorsFromCSV P (logged create) files (s, []) filePath)) = cs"
    using assms(1,2) by (simp add: import_calls cs_def)
  have "total rep = length cs"
    by (simp add: rep_def)
  with run n_ok n_dup n_bad n_all errs calls create_each_fst [of create cs s]
  show ?thesis
    unfolding Let_def cs_def [symmetric] outcomes_def [symmetric] by blast
qed

theorem import_persists_and_reports_witness:
  "candidates (\<lambda>_. None) exampleRows \<noteq> [] \<and>
   snd (snd (importDonorsFromCSV (\<lambda>_. None) (logged (Donor_create WithoutGeo)) exampleFiles
               (emptyStore, []) ''donors.csv'')) = candidates (\<lambda>_. None) exampleRows \<and>
   (\<exists>rep s'. importDonorsFromCSV (\<lambda>_. None) (Donor_create WithoutGeo) exampleFiles emptyStore
                ''donors.csv'' = (Resolved rep, s') \<and>
             total rep = 3 \<and> successful rep = 1 \<and> duplicates rep = 1 \<and> failed rep = 1)"
proof -
  have found: "exampleFiles ''donors.csv'' = Some \<lparr> rows = exampleRows, ending = End \<rparr>"
    by (simp add: exampleFiles_def)
  have ended: "ending \<lparr> rows = exampleRows, ending = End \<rparr> = End"
    by simp
  have three: "length (candidates (\<lambda>_. None) exampleRows) = 3"
    by code_simp
  have ok: "length (filter isSuccess (fst (create_each (Donor_create WithoutGeo)
               (candidates (\<lambda>_. None) exampleRows) emptyStore))) = 1"
    by code_simp
  have dup: "length (filter isDuplicate (fst (create_each (Donor_create WithoutGeo)
               (candidates (\<lambda>_. None) exampleRows) emptyStore))) = 1"
    by code_simp
  have bad: "length (filter isFailure (fst (create_each (Donor_create WithoutGeo)
               (candidates (\<lambda>_. None) exampleRows) emptyStore))) = 1"
    by code_simp
  from three have some: "candidates (\<lambda>_. None) (rows \<lparr> rows = exampleRows, ending = End \<rparr>) \<noteq> []"
    by auto
  from import_persists_and_reports
         [where files = exampleFiles and filePath = "''donors.csv''" and P = "\<lambda>_. None"
            and create = "Donor_create WithoutGeo" and s = emptyStore, OF found ended some]
  show ?thesis
    using three ok dup bad by (auto simp: Let_def)
qed

text \<open>
  Claim C2. A row whose transformed name or email is empty is recorded as a parse error with
  its line number (the header is line 1, so row \<open>i\<close>, counted from 0, is line \<open>i + 2\<close>), the
  row itself and the reason; it is not among the candidates; the recording store never sees
  it; every donor object the store is asked to create has a name and an email; and a
  resolved report lists the parse error.
\<close>

theorem invalid_rows_never_reach_the_store:
  assumes "files filePath = Some f" and "i < length (rows f)"
    and "name (toDonor P (rows f ! i)) = [] \<or> email (toDonor P (rows f ! i)) = []"
  shows "ParseError (i + 2) (rows f ! i) ''Missing required fields (name or email)''
           \<in> set (parse_errors (foldl (on_data P) initial_state (rows f))) \<and>
         toDonor P (rows f ! i) \<notin> set (donors (foldl (on_data P) initial_state (rows f))) \<and>
         toDonor P (rows f ! i) \<notin>
           set (snd (snd (importDonorsFromCSV P (logged create) files (s, []) filePath))) \<and>
         (\<forall>d \<in> set (snd (snd (importDonorsFromCSV P (logged create) files (s, []) filePath))).
            name d \<noteq> [] \<and> email d \<noteq> []) \<and>
         (\<forall>rep s'. importDonorsFromCSV P create files s filePath = (Resolved rep, s') \<longrightarrow>
            ParseError (i + 2) (rows f ! i) ''Missing required fields (name or email)''
              \<in> set (errors rep))"
proof -
  let ?e = "ParseError (i + 2) (rows f ! i) ''Missing required fields (name or email)''"
  let ?st = "foldl (on_data P) initial_state (rows f)"
  let ?calls = "snd (snd (importDonorsFromCSV P (logged create) files (s, []) filePath))"
  have bad: "\<not> isCandidate (toDonor P (rows f ! i))"
    using assms(3) by (auto simp: isCandidate_def)
  have recorded: "?e \<in> set (parse_errors ?st)"
    using parseErrorsFrom_nth [OF assms(2) bad, of 1]
    by (simp add: consume_parse_errors initial_state_def)
  have donors_st: "donors ?st = candidates P (rows f)"
    by (simp add: consume_donors initial_state_def)
  have excluded: "toDonor P (rows f ! i) \<notin> set (donors ?st)"
    using bad candidates_are_candidates [of "toDonor P (rows f ! i)" P "rows f"]
    by (auto simp: donors_st)
  have calls: "set ?calls \<subseteq> set (candidates P (rows f))"
    using assms(1) by (auto simp: import_calls)
  have not_called: "toDonor P (rows f ! i) \<notin> set ?calls"
    using calls excluded donors_st by auto
  have all_named: "\<forall>d \<in> set ?calls. name d \<noteq> [] \<and> email d \<noteq> []"
    using calls candidates_are_candidates [of _ P "rows f"] by (auto simp: isCandidate_def)
  have reported: "?e \<in> set (errors rep)"
    if "importDonorsFromCSV P create files s filePath = (Resolved rep, s')" for rep s'
    using that assms(1) recorded
    by (auto simp: importDonorsFromCSV_def on_end_def Let_def case_prod_beta
             split: stream_end.splits if_splits)
  from recorded excluded not_called all_named reported show ?thesis
    by blast
qed

theorem invalid_rows_never_reach_the_store_witness:
  "(1::nat) < length exampleRows \<and>
   email (toDonor (\<lambda>_. None) (exampleRows ! 1)) = [] \<and>
   ParseError 3 (exampleRows ! 1) ''Missing required fields (name or email)''
     \<in> set (parse_errors (foldl (on_data (\<lambda>_. None)) initial_state exampleRows)) \<and>
   toDonor (\<lambda>_. None) (exampleRows ! 1) \<notin>
     set (snd (snd (importDonorsFromCSV (\<lambda>_. None) (logged (Donor_create WithoutGeo))
                      exampleFiles (emptyStore, []) ''donors.csv'')))"
proof -
  have found: "exampleFiles ''donors.csv'' = Some \<lparr> rows = exampleRows, ending = End \<rparr>"
    by (simp add: exampleFiles_def)
  have len: "(1::nat) < length (rows \<lparr> rows = exampleRows, ending = End \<rparr>)"
    by (simp add: exampleRows_def)
  have no_email: "email (toDonor (\<lambda>_. None) (exampleRows ! 1)) = []"
    by code_simp
  then have bad: "name (toDonor (\<lambda>_. None) (rows \<lparr> rows = exampleRows, ending = End \<rparr> ! 1)) = [] \<or>
      email (toDonor (\<lambda>_. None) (rows \<lparr> rows = exampleRows, ending = End \<rparr> ! 1)) = []"
    by simp
  from invalid_rows_never_reach_the_store
         [where files = exampleFiles and filePath = "''donors.csv''" and P = "\<lambda>_. None"
            and create = "Donor_create WithoutGeo" and s = emptyStore and i = 1,
          OF found len bad]
  show ?thesis
    using len no_email by (simp add: numeral_3_eq_3)
qed

text \<open>
  Claim C3. When the stream has ended and no row is a candidate (there may be no row at all,
  or any number of parse errors), the promise is rejected with the error
  \<^verbatim>\<open>No valid donor records found in CSV\<close>, the store is unchanged and \<open>create\<close> is never
  called.
\<close>

theorem import_without_candidates_fails:
  assumes "files filePath = Some f" and "ending f = End" and "candidates P (rows f) = []"
  shows "importDonorsFromCSV P create files s filePath =
           (Rejected (new_Error ''No valid donor records found in CSV''), s) \<and>
         snd (snd (importDonorsFromCSV P (logged create) files (s, []) filePath)) = []"
  using assms
  by (simp add: import_calls importDonorsFromCSV_def on_end_def consume_donors
        initial_state_def)

theorem import_without_candidates_fails_witness:
  "candidates (\<lambda>_. None) invalidRows = [] \<and>
   length (parse_errors (foldl (on_data (\<lambda>_. None)) initial_state invalidRows)) = 3 \<and>
   importDonorsFromCSV (\<lambda>_. None) (Donor_create WithoutGeo)
       [''bad.csv'' \<mapsto> \<lparr> rows = invalidRows, ending = End \<rparr>] emptyStore ''bad.csv'' =
     (Rejected (new_Error ''No valid donor records found in CSV''), emptyStore) \<and>
   importDonorsFromCSV (\<lambda>_. None) (Donor_create WithoutGeo)
       [''empty.csv'' \<mapsto> \<lparr> rows = [], ending = End \<rparr>] emptyStore ''empty.csv'' =
     (Rejected (new_Error ''No valid donor records found in CSV''), emptyStore)"
proof -
  have none: "candidates (\<lambda>_. None) invalidRows = []"
    by code_simp
  have errs: "length (parse_errors (foldl (on_data (\<lambda>_. None)) initial_state invalidRows)) = 3"
    by code_simp
  have none': "candidates (\<lambda>_. None) [] = []"
    by (simp add: candidates_def)
  from import_without_candidates_fails
         [where files = "[''bad.csv'' \<mapsto> \<lparr> rows = invalidRows, ending = End \<rparr>]"
            and filePath = "''bad.csv''" and f = "\<lparr> rows = invalidRows, ending = End \<rparr>"
            and P = "\<lambda>_. None" and create = "Donor_create WithoutGeo" and s = emptyStore]
       import_without_candidates_fails
         [where files = "[''empty.csv'' \<mapsto> \<lparr> rows = [], ending = End \<rparr>]"
            and filePath = "''empty.csv''" and f = "\<lparr> rows = [], ending = End \<rparr>"
            and P = "\<lambda>_. None" and create = "Donor_create WithoutGeo" and s = emptyStore]
  show ?thesis
    using none none' errs by simp
qed



text \<open>
  Claim C10. An error of the file stream while the file is read reaches no listener of the
  import: the promise is not rejected (the error is thrown as uncaught), whatever rows were
  read before. The store is unchanged, as in every case in which the stream does not end
  (\<open>import_creates_only_after_end\<close>); an error the parser emits is rejected as a CSV reading
  error (\<open>import_parser_error\<close>).
\<close>

theorem read_error_is_not_rejected:
  "importDonorsFromCSV P create (files(filePath \<mapsto> \<lparr> rows = rs, ending = SourceError e \<rparr>)) s
      filePath = (Uncaught e, s)"
  by (simp add: importDonorsFromCSV_def)

section \<open>Properties of the store operations\<close>

subsection \<open>Queries, sorting and the store invariant\<close>



lemma getPath_createdAt: "getPath d ''createdAt'' = None"
  by (simp add: getPath_def split: option.splits)




lemma sortDesc_createdAt: "sortDesc ''createdAt'' ds = ds"
proof (induction ds)
  case Nil
  show ?case by (simp add: sortDesc_def)
next
  case (Cons d ds)
  have "insertDesc (dateKey ''createdAt'') d ds = d # ds"
    by (cases ds) (simp_all add: dateKey_def getPath_createdAt)
  with Cons show ?case by (simp add: sortDesc_def)
qed





lemma getAllDonors_storage_order:
  "getAllDonors now s filters = Inr found \<Longrightarrow> found = filter (\<lambda>d. d \<in> set found) (docs s)"
  by (auto simp: getAllDonors_def Donor_find_def sortDesc_createdAt Let_def
           intro!: filter_cong split: if_splits)

lemma getAllDonors_total: "\<exists>found. getAllDonors now s filters = Inr found"
  by (simp add: getAllDonors_def Donor_find_def Let_def)

lemma getAllDonors_empty: "docs s = [] \<Longrightarrow> getAllDonors now s filters = Inr []"
  by (simp add: getAllDonors_def Donor_find_def Let_def sortDesc_def)

lemma wellFormed_empty: "wellFormed emptyStore"
  by (simp add: wellFormed_def emptyStore_def)

lemma wellFormed_create:
  "wellFormed s \<Longrightarrow> wellFormed (snd (Donor_create sch s d))"
  by (auto simp: wellFormed_def Donor_create_def invalidPaths_def Let_def split: if_splits)

lemma wellFormed_delete:
  "wellFormed s \<Longrightarrow> wellFormed (snd (deleteDonor castId s i))"
  by (auto simp: wellFormed_def deleteDonor_def Donor_findByIdAndDelete_def list_all_iff
           split: option.splits dest: notin_set_remove1)


lemma find_id_Some:
  "d \<in> set ds \<Longrightarrow> \<exists>d'. find (\<lambda>x. doc_id x = doc_id d) ds = Some d' \<and> d' \<in> set ds \<and> doc_id d' = doc_id d"
  by (induction ds) auto

lemma find_id_None: "k \<notin> doc_id ` set ds \<Longrightarrow> find (\<lambda>x. doc_id x = k) ds = None"
  by (induction ds) auto




subsection \<open>The claims on the store operations\<close>





text \<open>
  Claim C7. The listing is not ordered by creation time. Ann is created, then Ben; neither
  document has a \<^verbatim>\<open>createdAt\<close> value, since the schema does not ask for time stamps, and
  \<^verbatim>\<open>getAllDonors\<close> returns Ann before Ben: the older record first. (On an empty store the
  listing is empty, and it never fails: lemmas \<open>getAllDonors_empty\<close>, \<open>getAllDonors_total\<close>.)
\<close>

theorem listing_is_oldest_first:
  "fst (Donor_create WithGeo emptyStore ann) = Inr (stored 0 ann) \<and>
   fst (Donor_create WithGeo (snd (Donor_create WithGeo emptyStore ann)) ben) = Inr (stored 1 ben) \<and>
   getAllDonors now (snd (Donor_create WithGeo (snd (Donor_create WithGeo emptyStore ann)) ben))
      Map.empty = Inr [stored 0 ann, stored 1 ben] \<and>
   getPath (stored 0 ann) ''createdAt'' = None \<and> getPath (stored 1 ben) ''createdAt'' = None"
proof -
  have a: "Donor_create WithGeo emptyStore ann =
             (Inr (stored 0 ann), \<lparr> docs = [stored 0 ann], next_id = 1 \<rparr>)"
    by code_simp
  have b: "Donor_create WithGeo \<lparr> docs = [stored 0 ann], next_id = 1 \<rparr> ben =
             (Inr (stored 1 ben), \<lparr> docs = [stored 0 ann, stored 1 ben], next_id = 2 \<rparr>)"
    by code_simp
  have c: "getAllDonors now \<lparr> docs = [stored 0 ann, stored 1 ben], next_id = 2 \<rparr> Map.empty =
             Inr [stored 0 ann, stored 1 ben]"
    by (simp add: getAllDonors_def Donor_find_def matches_def sortDesc_createdAt)
  from a b c show ?thesis
    by (simp add: getPath_createdAt)
qed




text \<open>
  Claim C9. \<^verbatim>\<open>getDonorById\<close> and \<^verbatim>\<open>deleteDonor\<close> on an identifier \<open>i\<close>: when \<open>i\<close> is not
  well formed both fail with \<^verbatim>\<open>Invalid donor ID format\<close>; when it is well formed and no
  record has it both fail with \<^verbatim>\<open>Donor not found\<close>; when a record has it, both return a
  stored record with this identifier, and \<^verbatim>\<open>deleteDonor\<close> removes it. The two errors differ.
\<close>

theorem lookup_by_identifier:
  "(castId i = None \<longrightarrow>
      getDonorById castId s i = Inl (new_Error ''Invalid donor ID format'') \<and>
      deleteDonor castId s i = (Inl (new_Error ''Invalid donor ID format''), s)) \<and>
   (\<forall>k. castId i = Some k \<and> k \<notin> doc_id ` set (docs s) \<longrightarrow>
      getDonorById castId s i = Inl (new_Error ''Donor not found'') \<and>
      deleteDonor castId s i = (Inl (new_Error ''Donor not found''), s)) \<and>
   (\<forall>k. castId i = Some k \<and> k \<in> doc_id ` set (docs s) \<longrightarrow>
      (\<exists>d. d \<in> set (docs s) \<and> doc_id d = k \<and>
           getDonorById castId s i = Inr d \<and>
           deleteDonor castId s i = (Inr d, s\<lparr> docs := remove1 d (docs s) \<rparr>))) \<and>
   new_Error ''Invalid donor ID format'' \<noteq> new_Error ''Donor not found''"
proof -
  have malformed: "getDonorById castId s i = Inl (new_Error ''Invalid donor ID format'') \<and>
      deleteDonor castId s i = (Inl (new_Error ''Invalid donor ID format''), s)"
    if "castId i = None"
    using that
    by (simp add: getDonorById_def deleteDonor_def Donor_findById_def
          Donor_findByIdAndDelete_def castError_def rethrowCast_def)
  have absent: "getDonorById castId s i = Inl (new_Error ''Donor not found'') \<and>
      deleteDonor castId s i = (Inl (new_Error ''Donor not found''), s)"
    if "castId i = Some k" and "k \<notin> doc_id ` set (docs s)" for k
    using that find_id_None [of k "docs s"]
    by (simp add: getDonorById_def deleteDonor_def Donor_findById_def
          Donor_findByIdAndDelete_def rethrowCast_def new_Error_def)
  have present: "\<exists>d. d \<in> set (docs s) \<and> doc_id d = k \<and>
           getDonorById castId s i = Inr d \<and>
           deleteDonor castId s i = (Inr d, s\<lparr> docs := remove1 d (docs s) \<rparr>)"
    if "castId i = Some k" and "k \<in> doc_id ` set (docs s)" for k
  proof -
    from that(2) obtain d0 where "d0 \<in> set (docs s)" and "doc_id d0 = k"
      by auto
    with find_id_Some [of d0 "docs s"] obtain d
      where "find (\<lambda>x. doc_id x = k) (docs s) = Some d" and "d \<in> set (docs s)" and "doc_id d = k"
      by auto
    with that(1) show ?thesis
      by (simp add: getDonorById_def deleteDonor_def Donor_findById_def
            Donor_findByIdAndDelete_def)
  qed
  have "new_Error ''Invalid donor ID format'' \<noteq> new_Error ''Donor not found''"
    by (simp add: new_Error_def)
  with malformed absent present show ?thesis
    by blast
qed

theorem lookup_by_identifier_witness:
  "castObjectId ''000000000000000000000001'' = Some 1 \<and>
   getDonorById castObjectId statsStore ''000000000000000000000001'' =
     Inr (stored 1 (exampleDonor ''Ann'' ''ann@x.org'' ''A+'' 30 None)) \<and>
   castObjectId ''0000000000000000000000fF'' = Some 255 \<and>
   getDonorById castObjectId statsStore ''0000000000000000000000fF'' =
     Inl (new_Error ''Donor not found'') \<and>
   castObjectId ''17'' = None \<and>
   getDonorById castObjectId statsStore ''17'' = Inl (new_Error ''Invalid donor ID format'') \<and>
   deleteDonor castObjectId statsStore ''17'' =
     (Inl (new_Error ''Invalid donor ID format''), statsStore)"
proof -
  have c1: "castObjectId ''000000000000000000000001'' = Some 1"
    and c2: "castObjectId ''0000000000000000000000fF'' = Some 255"
    and c3: "castObjectId ''17'' = None"
    by code_simp+
  have ids: "doc_id ` set (docs statsStore) = {0, 1, 2}"
    by (auto simp: statsStore_def stored_def)
  have only: "d = stored 1 (exampleDonor ''Ann'' ''ann@x.org'' ''A+'' 30 None)"
    if "d \<in> set (docs statsStore)" and "doc_id d = 1" for d
    using that by (auto simp: statsStore_def stored_def)
  from lookup_by_identifier [of castObjectId "''000000000000000000000001''" statsStore]
       lookup_by_identifier [of castObjectId "''0000000000000000000000fF''" statsStore]
       lookup_by_identifier [of castObjectId "''17''" statsStore]
  show ?thesis
    using c1 c2 c3 ids only by auto
qed

end
